theory Spec2Isabelle
  imports Complex_Main "HOL-Library.Word"
begin

section \<open>Protocol types shared by the sources\<close>

text \<open>
  The \<open>proto\<close> package is imported by every source file but is not among them; its
  types are declared here with the fields the sources read and write.
  \<open>proto.NodeID\<close>, \<open>proto.StoreID\<close> and \<open>StoreCapacity.RangeCount\<close> are \<open>int32\<close>;
  \<open>StoreCapacity.Capacity\<close> and \<open>Available\<close> are \<open>int64\<close>. Go's \<open>int\<close> is
  the 64-bit integer of the platforms the repository builds for.
\<close>

type_synonym NodeID = "32 word"
type_synonym StoreID = "32 word"
type_synonym Attributes = "string list"

record NodeDescriptor =
  NodeID :: NodeID
  NodeAttrs :: Attributes

record StoreCapacity =
  Capacity :: "64 word"
  Available :: "64 word"
  RangeCount :: "32 word"

record StoreDescriptor =
  StoreID :: StoreID
  Attrs :: Attributes
  Node :: NodeDescriptor
  DescCapacity :: StoreCapacity

section \<open>storage/simulation/store.go\<close>

definition bytesPerRange :: "64 word" where
  "bytesPerRange = push_bit 20 64"

definition capacityPerStore :: "64 word" where
  "capacityPerStore = push_bit 40 1"

text \<open>
  Modelled from the spec: the gossip package (\<open>gossip.MakeStoreKey\<close>,
  \<open>Gossip.AddInfoProto\<close>) is not among the sources. The spec's cluster-state feed has
  \<open>publish(key, StoreDescriptor, ttl)\<close> with keys that are per-store and unique: a key
  is the store's id under the store prefix, and the network is the map from keys to the
  descriptor and time-to-live last published under them.
\<close>

datatype GossipKey = StoreKey StoreID

type_synonym Gossip = "GossipKey \<rightharpoonup> StoreDescriptor \<times> int"

definition MakeStoreKey :: "StoreID \<Rightarrow> GossipKey" where
  "MakeStoreKey storeID = StoreKey storeID"

datatype error = Errorf string | RuntimePanic string

definition AddInfoProto :: "Gossip \<Rightarrow> GossipKey \<Rightarrow> StoreDescriptor \<Rightarrow> int \<Rightarrow> error option \<times> Gossip" where
  "AddInfoProto g key msg ttl = (None, g(key \<mapsto> (msg, ttl)))"

record Store =
  desc :: StoreDescriptor
  gossip :: Gossip

definition newStore :: "StoreID \<Rightarrow> NodeDescriptor \<Rightarrow> Gossip \<Rightarrow> Store" where
  "newStore storeID nodeDesc g =
     \<lparr>desc = \<lparr>StoreID = storeID, Attrs = [], Node = nodeDesc,
               DescCapacity = \<lparr>Capacity = 0, Available = 0, RangeCount = 0\<rparr>\<rparr>,
      gossip = g\<rparr>"

definition getIDs :: "Store \<Rightarrow> StoreID \<times> NodeID" where
  "getIDs s = (StoreID (desc s), NodeID (Node (desc s)))"

text \<open>
  \<open>int64(rangeCount)\<close> is the identity on a 64-bit \<open>int\<close>; the product and the
  difference wrap as \<open>int64\<close>; \<open>int32(rangeCount)\<close> keeps the low 32 bits.
\<close>

definition getCapacity :: "Store \<Rightarrow> 64 word \<Rightarrow> StoreCapacity" where
  "getCapacity s rangeCount =
     \<lparr>Capacity = capacityPerStore,
      Available = capacityPerStore - rangeCount * bytesPerRange,
      RangeCount = ucast rangeCount\<rparr>"

text \<open>
  \<open>getDesc\<close> has a pointer receiver: the model returns the receiver as the call leaves
  it, next to the result. \<open>desc := s.desc\<close> copies the struct, and the assignment to
  \<open>desc.Capacity\<close> is to the copy.
\<close>

definition getDesc :: "Store \<Rightarrow> 64 word \<Rightarrow> StoreDescriptor \<times> Store" where
  "getDesc s rangeCount =
     (let d = desc s;
          d = d\<lparr>DescCapacity := getCapacity s rangeCount\<rparr>
      in (d, s))"

definition gossipStore :: "Store \<Rightarrow> 64 word \<Rightarrow> error option \<times> Store" where
  "gossipStore s rangeCount =
     (let (d, s) = getDesc s rangeCount;
          gossipKey = MakeStoreKey (StoreID d);
          (err, g) = AddInfoProto (gossip s) gossipKey d 0
      in (err, s\<lparr>gossip := g\<rparr>))"

section \<open>server/status/feed.go\<close>

text \<open>
  \<open>proto.Method\<close> is an \<open>int32\<close> enumeration. A request is what \<open>CallComplete\<close>
  reads of it: the value its \<open>Method()\<close> returns and, when its dynamic type is
  \<open>*proto.BatchRequest\<close>, the requests inside it (each union's \<open>GetInner()\<close>), in
  order. A response is its header, whose \<open>Error\<close> is a pointer: \<open>None\<close> is nil.
  Of \<open>proto.TransactionRestart\<close> the source names \<open>ABORT\<close>.
\<close>

type_synonym Method = "32 word"

datatype Request = Request (reqMethod: Method) (reqBatch: "Request list option")

datatype TransactionRestart =
  TransactionRestart_ABORT | TransactionRestart_BACKOFF | TransactionRestart_IMMEDIATE

record Error =
  Message :: string
  TransactionRestart :: TransactionRestart

record ResponseHeader =
  Error :: "Error option"

record Response =
  Header :: ResponseHeader

datatype Event =
  StartNodeEvent NodeDescriptor "64 word"
| CallSuccessEvent NodeID Method
| CallErrorEvent NodeID Method

text \<open>
  Modelled from the spec: \<open>util.Feed\<close> is not among the sources, and the spec keeps the
  telemetry feed outside its scope. A feed is the list of the events published to it,
  oldest first; a nil feed takes none, as the comment on \<open>NodeEventFeed\<close> says ("If the
  target feed is nil, event methods become no-ops").
\<close>

type_synonym Feed = "Event list"

definition Publish :: "Feed option \<Rightarrow> Event \<Rightarrow> Feed option" where
  "Publish feed event = (case feed of None \<Rightarrow> None | Some evs \<Rightarrow> Some (evs @ [event]))"

record NodeEventFeed =
  id :: NodeID
  f :: "Feed option"

definition NewNodeEventFeed :: "NodeID \<Rightarrow> Feed option \<Rightarrow> NodeEventFeed" where
  "NewNodeEventFeed i feed = \<lparr>id = i, f = feed\<rparr>"

definition StartNode :: "NodeEventFeed \<Rightarrow> NodeDescriptor \<Rightarrow> 64 word \<Rightarrow> Feed option" where
  "StartNode nef d startedAt = Publish (f nef) (StartNodeEvent d startedAt)"

text \<open>The result is the feed \<open>nef.f\<close> points to, after the call.\<close>

definition CallComplete :: "NodeEventFeed \<Rightarrow> Request \<Rightarrow> Response \<Rightarrow> Feed option" where
  "CallComplete nef args reply =
     (let method = reqMethod args;
          method = (case reqBatch args of
                      Some ba \<Rightarrow> (if length ba > 0 then reqMethod (hd ba) else method)
                    | None \<Rightarrow> method)
      in case Error (Header reply) of
           Some err \<Rightarrow>
             if TransactionRestart err = TransactionRestart_ABORT
             then Publish (f nef) (CallErrorEvent (id nef) method)
             else Publish (f nef) (CallSuccessEvent (id nef) method)
         | None \<Rightarrow> Publish (f nef) (CallSuccessEvent (id nef) method))"

section \<open>storage/replicate\_queue.go\<close>

text \<open>
  \<open>proto.Replica\<close> is a replica of a range on a store; \<open>storage.Replica\<close>, the
  argument of \<open>shouldQueue\<close> and \<open>process\<close>, is the local copy of a range and appears
  below as \<open>RangeReplica\<close>. Priorities are \<open>float64\<close> values that the queue passes
  on and never computes with.
\<close>

type_synonym Key = string

record Replica =
  ReplicaNodeID :: NodeID
  ReplicaStoreID :: StoreID

record RangeDescriptor =
  StartKey :: Key
  EndKey :: Key
  Replicas :: "Replica list"

record ZoneConfig =
  ReplicaAttrs :: "Attributes list"

record Timestamp =
  WallTime :: "64 word"
  Logical :: "32 word"

datatype AllocatorAction =
  AllocatorNoop | AllocatorRemoveDead | AllocatorAdd | AllocatorRemove

datatype ReplicaChangeType = ADD_REPLICA | REMOVE_REPLICA

text \<open>
  Modelled from the spec: the store pool and \<open>computeQuorum\<close> are not among the sources.
  The store pool snapshot maps a store id to its descriptor and liveness;
  \<open>deadReplicas(replicas)\<close> "returns the subset whose store is currently classified
  Dead", an unknown store id being non-dead; "for a replica set of size n,
  quorum = \<open>\<lfloor>n/2\<rfloor>+1\<close>".
\<close>

datatype Liveness = Alive | Dead | Unknown

type_synonym StorePool = "StoreID \<rightharpoonup> StoreDescriptor \<times> Liveness"

definition isDead :: "StorePool \<Rightarrow> Replica \<Rightarrow> bool" where
  "isDead sp r = (case sp (ReplicaStoreID r) of Some (d, Dead) \<Rightarrow> True | _ \<Rightarrow> False)"

definition deadReplicas :: "StorePool \<Rightarrow> Replica list \<Rightarrow> Replica list" where
  "deadReplicas sp repls = filter (isDead sp) repls"

definition computeQuorum :: "int \<Rightarrow> int" where
  "computeQuorum nodes = nodes div 2 + 1"

text \<open>
  The allocator's methods, the system configuration's lookups and the range's
  \<open>ChangeReplicas\<close> are calls into code that is not among the sources. They are
  parameters of the model: each is a field holding what the call returns for its
  arguments. The store pool is refreshed while the queue runs, so what \<open>ComputeAction\<close>
  saw and what \<open>deadReplicas\<close> returns a moment later are independent, as the
  \<open>AllocatorRemoveDead\<close> case of \<open>process\<close> itself allows for.
\<close>

record Allocator =
  storePool :: StorePool
  ComputeAction :: "ZoneConfig \<Rightarrow> RangeDescriptor \<Rightarrow> AllocatorAction \<times> real"
  AllocateTarget :: "Attributes \<Rightarrow> Replica list \<Rightarrow> bool \<Rightarrow> (StoreDescriptor \<Rightarrow> bool) option
                       \<Rightarrow> error + StoreDescriptor"
  RemoveTarget :: "Replica list \<Rightarrow> error + Replica"
  RebalanceTarget :: "Attributes \<Rightarrow> Replica list \<Rightarrow> StoreDescriptor option"
  ShouldRebalance :: "StoreID \<Rightarrow> bool"

record SystemConfig =
  ComputeSplitKeys :: "Key \<Rightarrow> Key \<Rightarrow> Key list"
  GetZoneConfigForKey :: "Key \<Rightarrow> error + ZoneConfig"

record RangeReplica =
  Desc :: RangeDescriptor
  rmStoreID :: StoreID
  ChangeReplicas :: "ReplicaChangeType \<Rightarrow> Replica \<Rightarrow> RangeDescriptor \<Rightarrow> error option"

text \<open>
  \<open>clock\<close> is what \<open>rq.clock.Now()\<close> returns. The embedded \<open>baseQueue\<close> is not
  among the sources; the queue's \<open>MaybeAdd\<close> calls are recorded as effects.
\<close>

record replicateQueue =
  allocator :: Allocator
  clock :: Timestamp

definition replicateQueueMaxSize :: int where
  "replicateQueueMaxSize = 100"

definition replicateQueueTimerDuration :: "64 word" where
  "replicateQueueTimerDuration = 0"

definition needsLeaderLease :: "replicateQueue \<Rightarrow> bool" where
  "needsLeaderLease rq = True"

definition acceptsUnsplitRanges :: "replicateQueue \<Rightarrow> bool" where
  "acceptsUnsplitRanges rq = False"

definition timer :: "replicateQueue \<Rightarrow> 64 word" where
  "timer rq = replicateQueueTimerDuration"

text \<open>
  The named results \<open>shouldQ\<close> and \<open>priority\<close> start as \<open>false\<close> and \<open>0\<close>; a
  bare \<open>return\<close> returns them.
\<close>

definition shouldQueue ::
  "replicateQueue \<Rightarrow> Timestamp \<Rightarrow> RangeReplica \<Rightarrow> SystemConfig \<Rightarrow> bool \<times> real" where
  "shouldQueue rq now repl sysCfg =
     (let d = Desc repl in
      if length (ComputeSplitKeys sysCfg (StartKey d) (EndKey d)) > 0 then (False, 0)
      else case GetZoneConfigForKey sysCfg (StartKey d) of
             Inl err \<Rightarrow> (False, 0)
           | Inr zone \<Rightarrow>
               (let (action, priority) = ComputeAction (allocator rq) zone d in
                if action \<noteq> AllocatorNoop then (True, priority)
                else (ShouldRebalance (allocator rq) (rmStoreID repl), 0)))"

text \<open>
  What a call of \<open>process\<close> does besides returning: the \<open>ChangeReplicas\<close> calls it
  issued, in order, and the times of its \<open>MaybeAdd\<close> calls.
\<close>

type_synonym ChangeCall = "ReplicaChangeType \<times> Replica \<times> RangeDescriptor"

record Effects =
  changes :: "ChangeCall list"
  requeued :: "Timestamp list"

definition quorumError :: error where
  "quorumError = Errorf ''range requires a replication change, but lacks a quorum of live nodes.''"

text \<open>
  The \<open>switch\<close> of \<open>process\<close>. The first component is \<open>Some e\<close> when a case executed
  \<open>return e\<close>, and \<open>None\<close> when control left the switch; the second lists the
  \<open>ChangeReplicas\<close> calls made. \<open>zone.ReplicaAttrs[0]\<close> panics on an empty list.
\<close>

definition processSwitch ::
  "replicateQueue \<Rightarrow> RangeReplica \<Rightarrow> ZoneConfig \<Rightarrow> RangeDescriptor \<Rightarrow> Replica list
     \<Rightarrow> AllocatorAction \<Rightarrow> error option option \<times> ChangeCall list" where
  "processSwitch rq repl zone d dead action =
     (case action of
        AllocatorAdd \<Rightarrow>
          (case ReplicaAttrs zone of
             [] \<Rightarrow> (Some (Some (RuntimePanic ''index out of range'')), [])
           | a # as \<Rightarrow>
               (case AllocateTarget (allocator rq) a (Replicas d) True None of
                  Inl err \<Rightarrow> (Some (Some err), [])
                | Inr newStore' \<Rightarrow>
                    (let newReplica = \<lparr>ReplicaNodeID = NodeID (Node newStore'),
                                       ReplicaStoreID = StoreID newStore'\<rparr>
                     in case ChangeReplicas repl ADD_REPLICA newReplica d of
                          Some err \<Rightarrow> (Some (Some err), [(ADD_REPLICA, newReplica, d)])
                        | None \<Rightarrow> (None, [(ADD_REPLICA, newReplica, d)]))))
      | AllocatorRemove \<Rightarrow>
          (case RemoveTarget (allocator rq) (Replicas d) of
             Inl err \<Rightarrow> (Some (Some err), [])
           | Inr removeReplica \<Rightarrow>
               (case ChangeReplicas repl REMOVE_REPLICA removeReplica d of
                  Some err \<Rightarrow> (Some (Some err), [(REMOVE_REPLICA, removeReplica, d)])
                | None \<Rightarrow>
                    if ReplicaStoreID removeReplica = rmStoreID repl
                    then (Some None, [(REMOVE_REPLICA, removeReplica, d)])
                    else (None, [(REMOVE_REPLICA, removeReplica, d)])))
      | AllocatorRemoveDead \<Rightarrow>
          (if length dead = 0 then (None, [])
           else case ChangeReplicas repl REMOVE_REPLICA (hd dead) d of
                  Some err \<Rightarrow> (Some (Some err), [(REMOVE_REPLICA, hd dead, d)])
                | None \<Rightarrow> (None, [(REMOVE_REPLICA, hd dead, d)]))
      | AllocatorNoop \<Rightarrow>
          (case ReplicaAttrs zone of
             [] \<Rightarrow> (Some (Some (RuntimePanic ''index out of range'')), [])
           | a # as \<Rightarrow>
               (case RebalanceTarget (allocator rq) a (Replicas d) of
                  None \<Rightarrow> (Some None, [])
                | Some rebalanceStore \<Rightarrow>
                    (let rebalanceReplica = \<lparr>ReplicaNodeID = NodeID (Node rebalanceStore),
                                             ReplicaStoreID = StoreID rebalanceStore\<rparr>
                     in case ChangeReplicas repl ADD_REPLICA rebalanceReplica d of
                          Some err \<Rightarrow> (Some (Some err), [(ADD_REPLICA, rebalanceReplica, d)])
                        | None \<Rightarrow> (None, [(ADD_REPLICA, rebalanceReplica, d)])))))"

definition process ::
  "replicateQueue \<Rightarrow> Timestamp \<Rightarrow> RangeReplica \<Rightarrow> SystemConfig \<Rightarrow> error option \<times> Effects" where
  "process rq now repl sysCfg =
     (let d = Desc repl in
      case GetZoneConfigForKey sysCfg (StartKey d) of
        Inl err \<Rightarrow> (Some err, \<lparr>changes = [], requeued = []\<rparr>)
      | Inr zone \<Rightarrow>
          (let (action, priority) = ComputeAction (allocator rq) zone d;
               dead = deadReplicas (storePool (allocator rq)) (Replicas d);
               quorum = computeQuorum (int (length (Replicas d)));
               liveReplicaCount = int (length (Replicas d)) - int (length dead)
           in if liveReplicaCount < quorum
              then (Some quorumError, \<lparr>changes = [], requeued = []\<rparr>)
              else case processSwitch rq repl zone d dead action of
                     (Some ret, calls) \<Rightarrow> (ret, \<lparr>changes = calls, requeued = []\<rparr>)
                   | (None, calls) \<Rightarrow> (None, \<lparr>changes = calls, requeued = [clock rq]\<rparr>)))"

text \<open>
  Modelled from the spec: \<open>liveCount(replicas)\<close> of the store pool, computed as
  \<open>process\<close> computes its \<open>liveReplicaCount\<close>: the replicas that are not dead.
\<close>

definition liveCount :: "StorePool \<Rightarrow> Replica list \<Rightarrow> int" where
  "liveCount sp repls = int (length repls) - int (length (deadReplicas sp repls))"

text \<open>
  Modelled from the spec: the allocator's \<open>computeAction\<close> and the load measure of its
  \<open>removeTarget\<close> are not among the sources. The decision order of \<open>computeAction\<close>
  on a store-pool snapshot is: "if any replica's store is Dead AND the remaining live
  replicas still meet quorum after its removal" RemoveDead; "else if current replica
  count < desired N" Add; "else if current replica count > desired N" Remove; else Noop,
  where N is the number of the policy's constraint slots. The priority, for which the spec
  gives no formula and which \<open>process\<close> discards, is left out. \<open>removeTarget\<close>
  "selects the replica on the most loaded store (lowest available-capacity ratio)".
\<close>

definition computeAction :: "StorePool \<Rightarrow> ZoneConfig \<Rightarrow> RangeDescriptor \<Rightarrow> AllocatorAction" where
  "computeAction sp zone d =
     (let repls = Replicas d;
          count = int (length repls);
          need = int (length (ReplicaAttrs zone))
      in if deadReplicas sp repls \<noteq> [] \<and> computeQuorum (count - 1) \<le> liveCount sp repls
         then AllocatorRemoveDead
         else if count < need then AllocatorAdd
         else if count > need then AllocatorRemove
         else AllocatorNoop)"

definition availableRatio :: "StoreDescriptor \<Rightarrow> real" where
  "availableRatio d =
     real_of_int (sint (Available (DescCapacity d))) / real_of_int (sint (Capacity (DescCapacity d)))"

section \<open>Concrete inputs\<close>

text \<open>
  A range of three replicas on stores 1, 2 and 3, a store pool in which the listed stores
  are dead and every other store is alive, an allocator whose calls return fixed values
  (\<open>RemoveTarget\<close> the first replica), a range whose membership changes succeed, and a
  system configuration with or without pending split keys and a zone policy.
\<close>

definition exReplica :: "32 word \<Rightarrow> Replica" where
  "exReplica i = \<lparr>ReplicaNodeID = i, ReplicaStoreID = i\<rparr>"

definition exStore :: "32 word \<Rightarrow> StoreDescriptor" where
  "exStore i = \<lparr>StoreID = i, Attrs = [], Node = \<lparr>NodeID = i, NodeAttrs = []\<rparr>,
               DescCapacity = \<lparr>Capacity = 0, Available = 0, RangeCount = 0\<rparr>\<rparr>"

definition exPool :: "StoreID list \<Rightarrow> StorePool" where
  "exPool deadIDs = (\<lambda>i. Some (exStore i, if i \<in> set deadIDs then Dead else Alive))"

definition exDesc :: RangeDescriptor where
  "exDesc = \<lparr>StartKey = ''a'', EndKey = ''b'',
            Replicas = [exReplica 1, exReplica 2, exReplica 3]\<rparr>"

definition exQueue :: "StoreID list \<Rightarrow> AllocatorAction \<Rightarrow> real \<Rightarrow> StoreDescriptor option \<Rightarrow> replicateQueue" where
  "exQueue deadIDs action p reb =
     \<lparr>allocator =
        \<lparr>storePool = exPool deadIDs,
         ComputeAction = (\<lambda>zone d. (action, p)),
         AllocateTarget = (\<lambda>a rs relax flt. Inr (exStore 4)),
         RemoveTarget = (\<lambda>rs. case rs of [] \<Rightarrow> Inl (Errorf ''no replicas'') | r # rest \<Rightarrow> Inr r),
         RebalanceTarget = (\<lambda>a rs. reb),
         ShouldRebalance = (\<lambda>i. True)\<rparr>,
      clock = \<lparr>WallTime = 10, Logical = 0\<rparr>\<rparr>"

definition exRange :: "StoreID \<Rightarrow> RangeReplica" where
  "exRange thisStore = \<lparr>Desc = exDesc, rmStoreID = thisStore, ChangeReplicas = (\<lambda>t r d. None)\<rparr>"

definition exConfig :: "bool \<Rightarrow> bool \<Rightarrow> SystemConfig" where
  "exConfig split ok =
     \<lparr>ComputeSplitKeys = (\<lambda>k e. if split then [''m''] else []),
      GetZoneConfigForKey = (\<lambda>k. if ok then Inr \<lparr>ReplicaAttrs = [[], [], []]\<rparr>
                                  else Inl (Errorf ''no zone''))\<rparr>"

definition exNow :: Timestamp where
  "exNow = \<lparr>WallTime = 9, Logical = 0\<rparr>"

text \<open>
  A store pool refreshed between two reads. Store \<open>i\<close> has 100 bytes of capacity of
  which \<open>10 * i\<close> are available, so that store 1 is the most loaded. The policy has two
  constraint slots, one fewer than the range has replicas. The allocator answered
  \<open>ComputeAction\<close> from the snapshot in which every store was alive; by the time
  \<open>process\<close> reads the pool, store 3 has been classified dead. \<open>RemoveTarget\<close> returns
  the replica on store 1.
\<close>

definition exLoadedStore :: "32 word \<Rightarrow> StoreDescriptor" where
  "exLoadedStore i = \<lparr>StoreID = i, Attrs = [], Node = \<lparr>NodeID = i, NodeAttrs = []\<rparr>,
       DescCapacity = \<lparr>Capacity = 100, Available = 10 * ucast i, RangeCount = 1\<rparr>\<rparr>"

definition exLoadedPool :: "StoreID list \<Rightarrow> StorePool" where
  "exLoadedPool deadIDs =
     (\<lambda>i. Some (exLoadedStore i, if i \<in> set deadIDs then Dead else Alive))"

definition exPolicy2 :: ZoneConfig where
  "exPolicy2 = \<lparr>ReplicaAttrs = [[], []]\<rparr>"

definition exConfig2 :: SystemConfig where
  "exConfig2 = \<lparr>ComputeSplitKeys = (\<lambda>k e. []), GetZoneConfigForKey = (\<lambda>k. Inr exPolicy2)\<rparr>"

definition exStaleQueue :: replicateQueue where
  "exStaleQueue =
     \<lparr>allocator =
        \<lparr>storePool = exLoadedPool [3],
         ComputeAction = (\<lambda>zone d. (computeAction (exLoadedPool []) zone d, 0)),
         AllocateTarget = (\<lambda>a rs relax flt. Inr (exLoadedStore 4)),
         RemoveTarget = (\<lambda>rs. case rs of [] \<Rightarrow> Inl (Errorf ''no replicas'') | r # rest \<Rightarrow> Inr r),
         RebalanceTarget = (\<lambda>a rs. None),
         ShouldRebalance = (\<lambda>i. False)\<rparr>,
      clock = \<lparr>WallTime = 10, Logical = 0\<rparr>\<rparr>"

section \<open>Properties of the simulated store\<close>

text \<open>
  C10. For every range count, \<open>getDesc\<close> leaves the store as it was, and the descriptor
  it returns is the stored one in every field but the capacity; on a store built by
  \<open>newStore\<close> the store id and the node descriptor are the ones given at construction.
\<close>

theorem getDesc_frame:
  "snd (getDesc s rangeCount) = s
   \<and> (fst (getDesc s rangeCount))\<lparr>DescCapacity := DescCapacity (desc s)\<rparr> = desc s
   \<and> StoreID (fst (getDesc s rangeCount)) = StoreID (desc s)
   \<and> Attrs (fst (getDesc s rangeCount)) = Attrs (desc s)
   \<and> Node (fst (getDesc s rangeCount)) = Node (desc s)
   \<and> StoreID (fst (getDesc (newStore storeID nodeDesc g) rangeCount)) = storeID
   \<and> Node (fst (getDesc (newStore storeID nodeDesc g) rangeCount)) = nodeDesc
   \<and> desc (snd (getDesc (newStore storeID nodeDesc g) rangeCount)) = desc (newStore storeID nodeDesc g)"
  by (simp add: getDesc_def newStore_def Let_def)

lemma sint_word_of_int_64:
  assumes "- (2^63) \<le> k" "k < 2^63"
  shows "sint (word_of_int k :: 64 word) = k"
  using assms by (simp add: signed_of_int signed_take_bit_int_eq_self)

lemma getCapacity_Capacity: "sint (Capacity (getCapacity s rangeCount)) = 2^40"
  by (simp add: getCapacity_def capacityPerStore_def)

lemma getCapacity_Available:
  assumes "- (2^31) \<le> sint rangeCount" "sint rangeCount < 2^31"
  shows "sint (Available (getCapacity s rangeCount)) = 2^40 - sint rangeCount * 2^26"
proof -
  have e: "capacityPerStore - rangeCount * bytesPerRange
           = (word_of_int (2^40 - sint rangeCount * 2^26) :: 64 word)"
    by (simp add: capacityPerStore_def bytesPerRange_def)
  have b1: "- (2^63) \<le> 2^40 - sint rangeCount * (2^26 :: int)" using assms by simp
  have b2: "2^40 - sint rangeCount * (2^26 :: int) < 2^63" using assms by simp
  show ?thesis
    unfolding getCapacity_def using e sint_word_of_int_64 [OF b1 b2] by simp
qed

lemma getCapacity_RangeCount:
  assumes "- (2^31) \<le> sint rangeCount" "sint rangeCount < 2^31"
  shows "sint (RangeCount (getCapacity s rangeCount)) = sint rangeCount"
proof -
  have "sint (ucast rangeCount :: 32 word) = signed_take_bit 31 (uint rangeCount)"
    by (simp add: signed_ucast_eq)
  also have "\<dots> = signed_take_bit 31 (take_bit 64 (sint rangeCount))"
    by (simp add: uint_sint)
  also have "\<dots> = signed_take_bit 31 (sint rangeCount)"
    by (simp add: signed_take_bit_take_bit)
  also have "\<dots> = sint rangeCount"
    using assms by (simp add: signed_take_bit_int_eq_self)
  finally show ?thesis by (simp add: getCapacity_def)
qed

lemma gossipStore_eq:
  "gossipStore s rangeCount =
     (None, s\<lparr>gossip := (gossip s)(MakeStoreKey (StoreID (desc s)) \<mapsto>
                 ((desc s)\<lparr>DescCapacity := getCapacity s rangeCount\<rparr>, 0))\<rparr>)"
  by (simp add: gossipStore_def getDesc_def AddInfoProto_def Let_def)

text \<open>
  C8, as stated, at a range count of \<open>2^31\<close>: the descriptor published under the
  store's key carries the range count \<open>-2^31\<close>, since \<open>int32(rangeCount)\<close> keeps the
  low 32 bits only.
\<close>

theorem gossipStore_RangeCount_counterexample:
  "\<not> (case gossip (snd (gossipStore (newStore 7 \<lparr>NodeID = 1, NodeAttrs = []\<rparr> Map.empty) (2^31)))
           (MakeStoreKey 7) of
        None \<Rightarrow> False
      | Some (d, ttl) \<Rightarrow> sint (RangeCount (DescCapacity d)) = sint (2^31 :: 64 word))"
  by (simp add: gossipStore_eq newStore_def getCapacity_def)

text \<open>
  C8, amended. For every range count that fits \<open>int32\<close>, \<open>gossipStore\<close> returns no
  error and publishes, under the key made from the store's own id and with a zero
  time-to-live, the stored descriptor with its capacity recomputed: capacity \<open>2^40\<close>,
  available \<open>2^40 - rangeCount * 2^26\<close>, range count \<open>rangeCount\<close>. Keys made from
  two store ids are equal only when the ids are.
\<close>

theorem gossipStore_publishes:
  assumes "- (2^31) \<le> sint rangeCount" and "sint rangeCount < 2^31"
  shows "fst (gossipStore s rangeCount) = None
    \<and> desc (snd (gossipStore s rangeCount)) = desc s
    \<and> gossip (snd (gossipStore s rangeCount)) =
        (gossip s)(MakeStoreKey (StoreID (desc s)) \<mapsto>
           ((desc s)\<lparr>DescCapacity := getCapacity s rangeCount\<rparr>, 0))
    \<and> sint (Capacity (getCapacity s rangeCount)) = 2^40
    \<and> sint (Available (getCapacity s rangeCount)) = 2^40 - sint rangeCount * 2^26
    \<and> sint (RangeCount (getCapacity s rangeCount)) = sint rangeCount
    \<and> (MakeStoreKey a = MakeStoreKey b) = (a = b)"
  using getCapacity_Available [OF assms] getCapacity_RangeCount [OF assms]
  by (simp add: gossipStore_eq getCapacity_Capacity MakeStoreKey_def)

theorem gossipStore_publishes_witness:
  "- (2^31) \<le> sint (3 :: 64 word) \<and> sint (3 :: 64 word) < 2^31
   \<and> gossip (snd (gossipStore (newStore 7 \<lparr>NodeID = 1, NodeAttrs = []\<rparr> Map.empty) 3))
        (MakeStoreKey 7)
      = Some (\<lparr>StoreID = 7, Attrs = [], Node = \<lparr>NodeID = 1, NodeAttrs = []\<rparr>,
               DescCapacity = getCapacity (newStore 7 \<lparr>NodeID = 1, NodeAttrs = []\<rparr> Map.empty) 3\<rparr>, 0)
   \<and> sint (Available (getCapacity (newStore 7 \<lparr>NodeID = 1, NodeAttrs = []\<rparr> Map.empty) 3))
      = 1099310301184
   \<and> sint (RangeCount (getCapacity (newStore 7 \<lparr>NodeID = 1, NodeAttrs = []\<rparr> Map.empty) 3)) = 3"
proof -
  have h1: "- (2^31) \<le> sint (3 :: 64 word)" by simp
  have h2: "sint (3 :: 64 word) < 2^31" by simp
  show ?thesis
    using gossipStore_publishes [OF h1 h2, of "newStore 7 \<lparr>NodeID = 1, NodeAttrs = []\<rparr> Map.empty"]
    by (simp add: newStore_def)
qed

section \<open>Properties of the replication queue\<close>

lemmas ex_defs = exReplica_def exStore_def exPool_def exDesc_def exQueue_def exRange_def
  exConfig_def exNow_def

lemmas stale_defs = computeAction_def availableRatio_def exLoadedStore_def exLoadedPool_def
  exPolicy2_def exConfig2_def exStaleQueue_def

lemma process_lookup_failed:
  assumes "GetZoneConfigForKey sysCfg (StartKey (Desc repl)) = Inl e"
  shows "process rq now repl sysCfg = (Some e, \<lparr>changes = [], requeued = []\<rparr>)"
  using assms by (simp add: process_def)

lemma process_no_quorum:
  assumes "GetZoneConfigForKey sysCfg (StartKey (Desc repl)) = Inr zone"
    and "liveCount (storePool (allocator rq)) (Replicas (Desc repl))
           < int (length (Replicas (Desc repl))) div 2 + 1"
  shows "process rq now repl sysCfg = (Some quorumError, \<lparr>changes = [], requeued = []\<rparr>)"
  using assms by (simp add: process_def liveCount_def computeQuorum_def Let_def split: prod.splits)

lemma process_dispatch:
  assumes "GetZoneConfigForKey sysCfg (StartKey (Desc repl)) = Inr zone"
    and "\<not> liveCount (storePool (allocator rq)) (Replicas (Desc repl))
           < int (length (Replicas (Desc repl))) div 2 + 1"
  shows "process rq now repl sysCfg =
     (case processSwitch rq repl zone (Desc repl)
             (deadReplicas (storePool (allocator rq)) (Replicas (Desc repl)))
             (fst (ComputeAction (allocator rq) zone (Desc repl))) of
        (Some ret, calls) \<Rightarrow> (ret, \<lparr>changes = calls, requeued = []\<rparr>)
      | (None, calls) \<Rightarrow> (None, \<lparr>changes = calls, requeued = [clock rq]\<rparr>))"
  using assms by (simp add: process_def liveCount_def computeQuorum_def Let_def split: prod.splits)

lemma process_changes_quorum:
  assumes "changes (snd (process rq now repl sysCfg)) \<noteq> []"
  shows "int (length (Replicas (Desc repl))) div 2 + 1
           \<le> liveCount (storePool (allocator rq)) (Replicas (Desc repl))"
proof (cases "GetZoneConfigForKey sysCfg (StartKey (Desc repl))")
  case (Inl e)
  with assms show ?thesis by (simp add: process_lookup_failed)
next
  case (Inr zone)
  show ?thesis
  proof (rule ccontr)
    assume "\<not> ?thesis"
    then have "liveCount (storePool (allocator rq)) (Replicas (Desc repl))
           < int (length (Replicas (Desc repl))) div 2 + 1" by simp
    from process_no_quorum [OF Inr this] assms show False by simp
  qed
qed

lemma set_deadReplicas: "r \<in> set (deadReplicas sp rs) \<longleftrightarrow> r \<in> set rs \<and> isDead sp r"
  by (simp add: deadReplicas_def)

lemma deadReplicas_remove1:
  "deadReplicas sp (remove1 r rs) = remove1 r (deadReplicas sp rs)"
  by (simp add: deadReplicas_def filter_remove1)

lemma int_length_remove1:
  "int (length (remove1 r rs)) = int (length rs) - (if r \<in> set rs then 1 else 0)"
proof (cases "r \<in> set rs")
  case True
  then have "0 < length rs" by (rule length_pos_if_in_set)
  with True show ?thesis by (simp add: length_remove1 of_nat_diff Suc_leI)
next
  case False
  then show ?thesis by (simp add: remove1_idem)
qed

lemma liveCount_remove1:
  "liveCount sp (remove1 r rs) =
     liveCount sp rs - (if r \<in> set rs \<and> \<not> isDead sp r then 1 else 0)"
  by (auto simp: liveCount_def deadReplicas_remove1 int_length_remove1 set_deadReplicas)

text \<open>
  C1, amended. Whenever \<open>process\<close> issues a REMOVE, the live replica count before the
  change (the \<open>n\<close> replicas less the dead ones) is at least \<open>\<lfloor>n/2\<rfloor>+1\<close>: the guard is
  on the replica set before the removal, and a change that fails it is never issued.
  After the removal the live count is therefore at least \<open>\<lfloor>(n-1)/2\<rfloor>+1\<close> when the
  replica removed is a dead one, and at least \<open>\<lfloor>n/2\<rfloor>\<close> when it is not.
\<close>

theorem process_remove_quorum:
  assumes "(REMOVE_REPLICA, r, d) \<in> set (changes (snd (process rq now repl sysCfg)))"
  shows "int (length (Replicas (Desc repl))) div 2 + 1
           \<le> liveCount (storePool (allocator rq)) (Replicas (Desc repl))
    \<and> (if r \<in> set (deadReplicas (storePool (allocator rq)) (Replicas (Desc repl)))
        then (int (length (Replicas (Desc repl))) - 1) div 2 + 1
               \<le> liveCount (storePool (allocator rq)) (remove1 r (Replicas (Desc repl)))
        else int (length (Replicas (Desc repl))) div 2
               \<le> liveCount (storePool (allocator rq)) (remove1 r (Replicas (Desc repl))))"
proof -
  from assms have "changes (snd (process rq now repl sysCfg)) \<noteq> []" by auto
  then have q: "int (length (Replicas (Desc repl))) div 2 + 1
           \<le> liveCount (storePool (allocator rq)) (Replicas (Desc repl))"
    by (rule process_changes_quorum)
  show ?thesis
  proof (cases "r \<in> set (deadReplicas (storePool (allocator rq)) (Replicas (Desc repl)))")
    case True
    have "(int (length (Replicas (Desc repl))) - 1) div 2 \<le> int (length (Replicas (Desc repl))) div 2"
      by (rule zdiv_mono1) simp_all
    with q True show ?thesis by (simp add: liveCount_remove1 set_deadReplicas)
  next
    case False
    with q show ?thesis by (simp add: liveCount_remove1)
  qed
qed

text \<open>
  C2. The quorum is \<open>\<lfloor>n/2\<rfloor>+1\<close> over the current replica count \<open>n\<close>. Whenever the
  live replica count (the replicas less the dead ones) is below it, \<open>process\<close> returns
  an error, whatever the computed action: the lookup's error when the zone lookup failed,
  the quorum error otherwise; it issues no membership change and does not re-enqueue the
  range.
\<close>

theorem process_quorum_gate:
  assumes "liveCount (storePool (allocator rq)) (Replicas (Desc repl))
             < int (length (Replicas (Desc repl))) div 2 + 1"
  shows "fst (process rq now repl sysCfg) \<noteq> None
    \<and> changes (snd (process rq now repl sysCfg)) = []
    \<and> requeued (snd (process rq now repl sysCfg)) = []
    \<and> process rq now repl sysCfg =
        (case GetZoneConfigForKey sysCfg (StartKey (Desc repl)) of
           Inl e \<Rightarrow> (Some e, \<lparr>changes = [], requeued = []\<rparr>)
         | Inr zone \<Rightarrow> (Some quorumError, \<lparr>changes = [], requeued = []\<rparr>))"
proof (cases "GetZoneConfigForKey sysCfg (StartKey (Desc repl))")
  case (Inl e)
  then show ?thesis by (simp add: process_lookup_failed)
next
  case (Inr zone)
  from process_no_quorum [OF Inr assms] Inr show ?thesis by simp
qed


text \<open>
  The guard at work: three replicas of which the one on store 3 is dead, and the action
  \<open>AllocatorRemoveDead\<close>.
\<close>

theorem process_remove_quorum_witness:
  "(REMOVE_REPLICA, exReplica 3, exDesc)
      \<in> set (changes (snd (process (exQueue [3] AllocatorRemoveDead 1 None) exNow (exRange 5)
                                  (exConfig False True))))
   \<and> exReplica 3 \<in> set (deadReplicas (exPool [3]) (Replicas exDesc))
   \<and> (2::int) \<le> liveCount (exPool [3]) (Replicas exDesc)
   \<and> (2::int) \<le> liveCount (exPool [3]) (remove1 (exReplica 3) (Replicas exDesc))"
proof -
  have h: "(REMOVE_REPLICA, exReplica 3, exDesc)
      \<in> set (changes (snd (process (exQueue [3] AllocatorRemoveDead 1 None) exNow (exRange 5)
                                  (exConfig False True))))"
    by (simp add: process_def processSwitch_def ex_defs deadReplicas_def isDead_def
        computeQuorum_def)
  have m: "exReplica 3 \<in> set (deadReplicas (exPool [3]) (Replicas exDesc))"
    by (simp add: ex_defs deadReplicas_def isDead_def)
  from process_remove_quorum [OF h] h m show ?thesis
    by (simp add: ex_defs)
qed

text \<open>
  C1, as stated, on a range of three replicas under a policy of two slots, led by
  store 2. While every store was alive the allocator's \<open>computeAction\<close> answered
  Remove (three replicas, two wanted), and the most loaded store is store 1. Before
  \<open>process\<close> reads the store pool, store 3 is classified dead: on that snapshot the
  same \<open>computeAction\<close> would answer RemoveDead. Two live replicas meet the quorum of
  three, so the guard passes; the REMOVE of the live replica on store 1 is issued, and
  the one live replica it leaves is below \<open>\<lfloor>(3-1)/2\<rfloor>+1 = 2\<close>.
\<close>

theorem process_remove_stale_counterexample:
  "computeAction (exLoadedPool []) exPolicy2 exDesc = AllocatorRemove
   \<and> computeAction (exLoadedPool [3]) exPolicy2 exDesc = AllocatorRemoveDead
   \<and> availableRatio (exLoadedStore 1) < availableRatio (exLoadedStore 2)
   \<and> availableRatio (exLoadedStore 1) < availableRatio (exLoadedStore 3)
   \<and> deadReplicas (exLoadedPool [3]) (Replicas exDesc) = [exReplica 3]
   \<and> computeQuorum (int (length (Replicas exDesc))) \<le> liveCount (exLoadedPool [3]) (Replicas exDesc)
   \<and> process exStaleQueue exNow (exRange 2) exConfig2
       = (None, \<lparr>changes = [(REMOVE_REPLICA, exReplica 1, exDesc)],
                 requeued = [\<lparr>WallTime = 10, Logical = 0\<rparr>]\<rparr>)
   \<and> liveCount (exLoadedPool [3]) (remove1 (exReplica 1) (Replicas exDesc))
       < (int (length (Replicas exDesc)) - 1) div 2 + 1"
  by (simp add: process_def processSwitch_def ex_defs stale_defs deadReplicas_def isDead_def
      computeQuorum_def liveCount_def)

text \<open>
  The spec's scenario: three replicas, two of them on dead stores.
\<close>

theorem process_quorum_gate_witness:
  "liveCount (exPool [3, 2]) (Replicas exDesc) < int (length (Replicas exDesc)) div 2 + 1
   \<and> process (exQueue [3, 2] AllocatorRemoveDead 1 None) exNow (exRange 5) (exConfig False True)
       = (Some quorumError, \<lparr>changes = [], requeued = []\<rparr>)"
proof -
  have h: "liveCount (storePool (allocator (exQueue [3, 2] AllocatorRemoveDead 1 None)))
             (Replicas (Desc (exRange 5)))
           < int (length (Replicas (Desc (exRange 5)))) div 2 + 1"
    by (simp add: ex_defs liveCount_def deadReplicas_def isDead_def)
  from process_quorum_gate [OF h, of exNow "exConfig False True"] h show ?thesis
    by (simp add: ex_defs)
qed

text \<open>
  C3, amended. If the range's key span still has split keys, \<open>shouldQueue\<close> returns
  \<open>(false, 0)\<close> whatever the allocator holds. Otherwise, if the zone lookup fails, it
  returns \<open>(false, 0)\<close>; if the lookup succeeds and \<open>ComputeAction\<close> returns a
  non-Noop action with priority \<open>p\<close>, it returns \<open>(true, p)\<close>; if the lookup succeeds
  and the action is Noop, it returns \<open>(ShouldRebalance(thisStore), 0)\<close>.
\<close>

theorem shouldQueue_cases:
  "(ComputeSplitKeys sysCfg (StartKey (Desc repl)) (EndKey (Desc repl)) \<noteq> []
      \<longrightarrow> shouldQueue rq now repl sysCfg = (False, 0))
   \<and> (ComputeSplitKeys sysCfg (StartKey (Desc repl)) (EndKey (Desc repl)) = []
      \<and> GetZoneConfigForKey sysCfg (StartKey (Desc repl)) = Inl e
      \<longrightarrow> shouldQueue rq now repl sysCfg = (False, 0))
   \<and> (ComputeSplitKeys sysCfg (StartKey (Desc repl)) (EndKey (Desc repl)) = []
      \<and> GetZoneConfigForKey sysCfg (StartKey (Desc repl)) = Inr zone
      \<and> ComputeAction (allocator rq) zone (Desc repl) = (action, p)
      \<and> action \<noteq> AllocatorNoop
      \<longrightarrow> shouldQueue rq now repl sysCfg = (True, p))
   \<and> (ComputeSplitKeys sysCfg (StartKey (Desc repl)) (EndKey (Desc repl)) = []
      \<and> GetZoneConfigForKey sysCfg (StartKey (Desc repl)) = Inr zone
      \<and> ComputeAction (allocator rq) zone (Desc repl) = (AllocatorNoop, p)
      \<longrightarrow> shouldQueue rq now repl sysCfg = (ShouldRebalance (allocator rq) (rmStoreID repl), 0))"
  by (simp add: shouldQueue_def)

text \<open>
  C3, as stated, on a range with no split keys whose zone lookup fails while the
  allocator would rebalance this store: the result is \<open>(false, 0)\<close>, not
  \<open>(ShouldRebalance(thisStore), 0)\<close>.
\<close>

theorem shouldQueue_lookup_failure_counterexample:
  "ComputeSplitKeys (exConfig False False) (StartKey (Desc (exRange 5))) (EndKey (Desc (exRange 5))) = []
   \<and> GetZoneConfigForKey (exConfig False False) (StartKey (Desc (exRange 5))) = Inl (Errorf ''no zone'')
   \<and> ShouldRebalance (allocator (exQueue [] AllocatorNoop 0 None)) (rmStoreID (exRange 5))
   \<and> shouldQueue (exQueue [] AllocatorNoop 0 None) exNow (exRange 5) (exConfig False False)
        = (False, 0)
   \<and> shouldQueue (exQueue [] AllocatorNoop 0 None) exNow (exRange 5) (exConfig False False)
        \<noteq> (ShouldRebalance (allocator (exQueue [] AllocatorNoop 0 None)) (rmStoreID (exRange 5)), 0)"
  by (simp add: shouldQueue_def ex_defs)

theorem shouldQueue_cases_witness:
  "ComputeSplitKeys (exConfig True True) (StartKey (Desc (exRange 5))) (EndKey (Desc (exRange 5))) \<noteq> []
   \<and> shouldQueue (exQueue [] AllocatorAdd 7 None) exNow (exRange 5) (exConfig True True) = (False, 0)
   \<and> GetZoneConfigForKey (exConfig False False) (StartKey (Desc (exRange 5))) = Inl (Errorf ''no zone'')
   \<and> shouldQueue (exQueue [] AllocatorAdd 7 None) exNow (exRange 5) (exConfig False False) = (False, 0)
   \<and> ComputeAction (allocator (exQueue [] AllocatorAdd 7 None)) \<lparr>ReplicaAttrs = [[], [], []]\<rparr>
        (Desc (exRange 5)) = (AllocatorAdd, 7)
   \<and> shouldQueue (exQueue [] AllocatorAdd 7 None) exNow (exRange 5) (exConfig False True) = (True, 7)
   \<and> ComputeAction (allocator (exQueue [] AllocatorNoop 7 None)) \<lparr>ReplicaAttrs = [[], [], []]\<rparr>
        (Desc (exRange 5)) = (AllocatorNoop, 7)
   \<and> shouldQueue (exQueue [] AllocatorNoop 7 None) exNow (exRange 5) (exConfig False True) = (True, 0)"
proof -
  let ?z = "\<lparr>ReplicaAttrs = [[], [], []]\<rparr>"
  have s1: "ComputeSplitKeys (exConfig True True) (StartKey (Desc (exRange 5)))
              (EndKey (Desc (exRange 5))) \<noteq> []"
    by (simp add: ex_defs)
  have s0: "ComputeSplitKeys (exConfig False ok) (StartKey (Desc (exRange 5)))
              (EndKey (Desc (exRange 5))) = []" for ok
    by (simp add: ex_defs)
  have l0: "GetZoneConfigForKey (exConfig False False) (StartKey (Desc (exRange 5)))
              = Inl (Errorf ''no zone'')"
    by (simp add: ex_defs)
  have l1: "GetZoneConfigForKey (exConfig False True) (StartKey (Desc (exRange 5))) = Inr ?z"
    by (simp add: ex_defs)
  have a1: "ComputeAction (allocator (exQueue [] AllocatorAdd 7 None)) ?z (Desc (exRange 5))
              = (AllocatorAdd, 7)"
    by (simp add: ex_defs)
  have a0: "ComputeAction (allocator (exQueue [] AllocatorNoop 7 None)) ?z (Desc (exRange 5))
              = (AllocatorNoop, 7)"
    by (simp add: ex_defs)
  have r: "ShouldRebalance (allocator (exQueue [] AllocatorNoop 7 None)) (rmStoreID (exRange 5))"
    by (simp add: ex_defs)
  note c1 = shouldQueue_cases [where sysCfg = "exConfig True True" and repl = "exRange 5"
      and rq = "exQueue [] AllocatorAdd 7 None" and now = exNow, THEN conjunct1, rule_format, OF s1]
  note c2 = shouldQueue_cases [where sysCfg = "exConfig False False" and repl = "exRange 5"
      and rq = "exQueue [] AllocatorAdd 7 None" and now = exNow and e = "Errorf ''no zone''",
      THEN conjunct2, THEN conjunct1, rule_format, OF conjI [OF s0 l0]]
  note c3 = shouldQueue_cases [where sysCfg = "exConfig False True" and repl = "exRange 5"
      and rq = "exQueue [] AllocatorAdd 7 None" and now = exNow and zone = ?z
      and action = AllocatorAdd and p = 7,
      THEN conjunct2, THEN conjunct2, THEN conjunct1, rule_format]
  note c4 = shouldQueue_cases [where sysCfg = "exConfig False True" and repl = "exRange 5"
      and rq = "exQueue [] AllocatorNoop 7 None" and now = exNow and zone = ?z and p = 7,
      THEN conjunct2, THEN conjunct2, THEN conjunct2, rule_format]
  from s1 c1 l0 c2 a1 c3 a0 c4 s0 l1 r show ?thesis by simp
qed

text \<open>
  C4. Whenever \<open>process\<close> has issued a membership change and returns nil, the change is
  the only one it issued, on the range's current descriptor, and the range is re-offered
  to the queue once, at the clock's current time; except when the action is
  \<open>AllocatorRemove\<close> and the replica removed is on this store, where the range is not
  re-offered.
\<close>

theorem process_requeues:
  assumes "fst (process rq now repl sysCfg) = None"
    and "changes (snd (process rq now repl sysCfg)) \<noteq> []"
  shows "\<exists>zone t r. GetZoneConfigForKey sysCfg (StartKey (Desc repl)) = Inr zone
    \<and> changes (snd (process rq now repl sysCfg)) = [(t, r, Desc repl)]
    \<and> requeued (snd (process rq now repl sysCfg)) =
        (if fst (ComputeAction (allocator rq) zone (Desc repl)) = AllocatorRemove
            \<and> ReplicaStoreID r = rmStoreID repl
         then [] else [clock rq])"
proof (cases "GetZoneConfigForKey sysCfg (StartKey (Desc repl))")
  case (Inl e)
  with assms(1) show ?thesis by (simp add: process_lookup_failed)
next
  case (Inr zone)
  from assms(2) have q: "\<not> liveCount (storePool (allocator rq)) (Replicas (Desc repl))
           < int (length (Replicas (Desc repl))) div 2 + 1"
    using process_changes_quorum [of rq now repl sysCfg] by simp
  note d = process_dispatch [OF Inr q, of now]
  from assms have "changes (snd (process rq now repl sysCfg)) =
        [(fst (hd (changes (snd (process rq now repl sysCfg)))),
          fst (snd (hd (changes (snd (process rq now repl sysCfg))))), Desc repl)]
    \<and> requeued (snd (process rq now repl sysCfg)) =
        (if fst (ComputeAction (allocator rq) zone (Desc repl)) = AllocatorRemove
            \<and> ReplicaStoreID (fst (snd (hd (changes (snd (process rq now repl sysCfg))))))
                = rmStoreID repl
         then [] else [clock rq])"
    unfolding d
    by (cases "fst (ComputeAction (allocator rq) zone (Desc repl))")
       (auto simp: processSwitch_def Let_def
          split: list.splits sum.splits option.splits if_splits)
  with Inr show ?thesis by blast
qed

text \<open>
  An ADD that succeeds is followed by the re-offer; a REMOVE of the replica on this
  store (store 1) is not.
\<close>

theorem process_requeues_witness:
  "fst (process (exQueue [] AllocatorAdd 1 None) exNow (exRange 5) (exConfig False True)) = None
   \<and> changes (snd (process (exQueue [] AllocatorAdd 1 None) exNow (exRange 5) (exConfig False True)))
       = [(ADD_REPLICA, exReplica 4, exDesc)]
   \<and> requeued (snd (process (exQueue [] AllocatorAdd 1 None) exNow (exRange 5) (exConfig False True)))
       = [clock (exQueue [] AllocatorAdd 1 None)]
   \<and> fst (process (exQueue [] AllocatorRemove 1 None) exNow (exRange 1) (exConfig False True)) = None
   \<and> changes (snd (process (exQueue [] AllocatorRemove 1 None) exNow (exRange 1) (exConfig False True)))
       = [(REMOVE_REPLICA, exReplica 1, exDesc)]
   \<and> requeued (snd (process (exQueue [] AllocatorRemove 1 None) exNow (exRange 1) (exConfig False True)))
       = []"
proof -
  have a: "process (exQueue [] AllocatorAdd 1 None) exNow (exRange 5) (exConfig False True)
      = (None, \<lparr>changes = [(ADD_REPLICA, exReplica 4, exDesc)],
                requeued = [clock (exQueue [] AllocatorAdd 1 None)]\<rparr>)"
    by (simp add: process_def processSwitch_def ex_defs deadReplicas_def isDead_def
        computeQuorum_def)
  have r: "process (exQueue [] AllocatorRemove 1 None) exNow (exRange 1) (exConfig False True)
      = (None, \<lparr>changes = [(REMOVE_REPLICA, exReplica 1, exDesc)], requeued = []\<rparr>)"
    by (simp add: process_def processSwitch_def ex_defs deadReplicas_def isDead_def
        computeQuorum_def)
  have a1: "fst (process (exQueue [] AllocatorAdd 1 None) exNow (exRange 5) (exConfig False True)) = None"
    and a2: "changes (snd (process (exQueue [] AllocatorAdd 1 None) exNow (exRange 5)
                             (exConfig False True))) \<noteq> []"
    by (simp_all add: a)
  have r1: "fst (process (exQueue [] AllocatorRemove 1 None) exNow (exRange 1) (exConfig False True)) = None"
    and r2: "changes (snd (process (exQueue [] AllocatorRemove 1 None) exNow (exRange 1)
                             (exConfig False True))) \<noteq> []"
    by (simp_all add: r)
  from process_requeues [OF a1 a2] process_requeues [OF r1 r2] show ?thesis
    by (simp add: a r)
qed

text \<open>
  C5, as stated, with the action Noop and no rebalance target on a range of three
  replicas of which two are dead: \<open>process\<close> returns the quorum error, not nil.
\<close>

theorem process_noop_counterexample:
  "fst (ComputeAction (allocator (exQueue [3, 2] AllocatorNoop 0 None))
          \<lparr>ReplicaAttrs = [[], [], []]\<rparr> (Desc (exRange 5))) = AllocatorNoop
   \<and> RebalanceTarget (allocator (exQueue [3, 2] AllocatorNoop 0 None)) []
        (Replicas (Desc (exRange 5))) = None
   \<and> process (exQueue [3, 2] AllocatorNoop 0 None) exNow (exRange 5) (exConfig False True)
       = (Some quorumError, \<lparr>changes = [], requeued = []\<rparr>)"
  by (simp add: process_def ex_defs deadReplicas_def isDead_def computeQuorum_def)

text \<open>
  C5, amended. When the zone lookup has succeeded, the live replicas make the quorum,
  the policy has a first constraint slot and the computed action is Noop: if
  \<open>RebalanceTarget\<close> returns no store, \<open>process\<close> returns nil with no membership
  change and without re-enqueueing the range; if it returns a store, \<open>process\<close> issues
  an ADD toward that store's \<open>(NodeID, StoreID)\<close>, returns the change's error if it
  fails, and on success re-enqueues the range and returns nil.
\<close>

theorem process_noop:
  assumes "GetZoneConfigForKey sysCfg (StartKey (Desc repl)) = Inr zone"
    and "\<not> liveCount (storePool (allocator rq)) (Replicas (Desc repl))
           < int (length (Replicas (Desc repl))) div 2 + 1"
    and "fst (ComputeAction (allocator rq) zone (Desc repl)) = AllocatorNoop"
    and "ReplicaAttrs zone = a # as"
  shows "process rq now repl sysCfg =
     (case RebalanceTarget (allocator rq) a (Replicas (Desc repl)) of
        None \<Rightarrow> (None, \<lparr>changes = [], requeued = []\<rparr>)
      | Some st \<Rightarrow>
          (case ChangeReplicas repl ADD_REPLICA
                  \<lparr>ReplicaNodeID = NodeID (Node st), ReplicaStoreID = StoreID st\<rparr> (Desc repl) of
             Some err \<Rightarrow>
               (Some err,
                \<lparr>changes = [(ADD_REPLICA,
                     \<lparr>ReplicaNodeID = NodeID (Node st), ReplicaStoreID = StoreID st\<rparr>, Desc repl)],
                 requeued = []\<rparr>)
           | None \<Rightarrow>
               (None,
                \<lparr>changes = [(ADD_REPLICA,
                     \<lparr>ReplicaNodeID = NodeID (Node st), ReplicaStoreID = StoreID st\<rparr>, Desc repl)],
                 requeued = [clock rq]\<rparr>)))"
  unfolding process_dispatch [OF assms(1,2)] using assms(3,4)
  by (simp add: processSwitch_def Let_def split: option.split)

theorem process_noop_witness:
  "process (exQueue [] AllocatorNoop 0 None) exNow (exRange 5) (exConfig False True)
     = (None, \<lparr>changes = [], requeued = []\<rparr>)
   \<and> process (exQueue [] AllocatorNoop 0 (Some (exStore 9))) exNow (exRange 5) (exConfig False True)
     = (None, \<lparr>changes = [(ADD_REPLICA, exReplica 9, exDesc)],
               requeued = [\<lparr>WallTime = 10, Logical = 0\<rparr>]\<rparr>)"
proof -
  let ?z = "\<lparr>ReplicaAttrs = [[], [], []]\<rparr>"
  have l: "GetZoneConfigForKey (exConfig False True) (StartKey (Desc (exRange 5))) = Inr ?z"
    by (simp add: ex_defs)
  have q: "\<not> liveCount (storePool (allocator (exQueue [] AllocatorNoop 0 reb)))
               (Replicas (Desc (exRange 5)))
             < int (length (Replicas (Desc (exRange 5)))) div 2 + 1" for reb
    by (simp add: ex_defs liveCount_def deadReplicas_def isDead_def)
  have n: "fst (ComputeAction (allocator (exQueue [] AllocatorNoop 0 reb)) ?z (Desc (exRange 5)))
             = AllocatorNoop" for reb
    by (simp add: ex_defs)
  have z: "ReplicaAttrs ?z = [] # [[], []]" by simp
  from process_noop [OF l q n z, of None exNow]
       process_noop [OF l q n z, of "Some (exStore 9)" exNow]
  show ?thesis by (simp add: ex_defs)
qed

text \<open>
  C6, as stated, with the action RemoveDead on a range of three replicas of which two
  are dead: the store pool reports dead replicas, and \<open>process\<close> returns the quorum
  error without issuing a REMOVE.
\<close>

theorem process_removeDead_counterexample:
  "fst (ComputeAction (allocator (exQueue [3, 2] AllocatorRemoveDead 0 None))
          \<lparr>ReplicaAttrs = [[], [], []]\<rparr> (Desc (exRange 5))) = AllocatorRemoveDead
   \<and> deadReplicas (storePool (allocator (exQueue [3, 2] AllocatorRemoveDead 0 None)))
        (Replicas (Desc (exRange 5))) = [exReplica 2, exReplica 3]
   \<and> process (exQueue [3, 2] AllocatorRemoveDead 0 None) exNow (exRange 5) (exConfig False True)
       = (Some quorumError, \<lparr>changes = [], requeued = []\<rparr>)"
  by (simp add: process_def ex_defs deadReplicas_def isDead_def computeQuorum_def)

text \<open>
  C6, amended. When the zone lookup has succeeded, the live replicas make the quorum and
  the computed action is RemoveDead: if the store pool reports at least one dead
  replica, \<open>process\<close> issues a REMOVE for the first of them (returning the change's
  error if it fails, and re-enqueueing the range and returning nil otherwise); if it
  reports none (a stale snapshot), \<open>process\<close> issues no membership change and returns
  nil, after re-enqueueing the range.
\<close>

theorem process_removeDead:
  assumes "GetZoneConfigForKey sysCfg (StartKey (Desc repl)) = Inr zone"
    and "\<not> liveCount (storePool (allocator rq)) (Replicas (Desc repl))
           < int (length (Replicas (Desc repl))) div 2 + 1"
    and "fst (ComputeAction (allocator rq) zone (Desc repl)) = AllocatorRemoveDead"
  shows "process rq now repl sysCfg =
     (case deadReplicas (storePool (allocator rq)) (Replicas (Desc repl)) of
        [] \<Rightarrow> (None, \<lparr>changes = [], requeued = [clock rq]\<rparr>)
      | r # rs \<Rightarrow>
          (case ChangeReplicas repl REMOVE_REPLICA r (Desc repl) of
             Some err \<Rightarrow>
               (Some err, \<lparr>changes = [(REMOVE_REPLICA, r, Desc repl)], requeued = []\<rparr>)
           | None \<Rightarrow>
               (None, \<lparr>changes = [(REMOVE_REPLICA, r, Desc repl)], requeued = [clock rq]\<rparr>)))"
  unfolding process_dispatch [OF assms(1,2)] using assms(3)
  by (simp add: processSwitch_def Let_def split: option.split list.split)

theorem process_removeDead_witness:
  "process (exQueue [3] AllocatorRemoveDead 0 None) exNow (exRange 5) (exConfig False True)
     = (None, \<lparr>changes = [(REMOVE_REPLICA, exReplica 3, exDesc)],
               requeued = [\<lparr>WallTime = 10, Logical = 0\<rparr>]\<rparr>)
   \<and> process (exQueue [] AllocatorRemoveDead 0 None) exNow (exRange 5) (exConfig False True)
     = (None, \<lparr>changes = [], requeued = [\<lparr>WallTime = 10, Logical = 0\<rparr>]\<rparr>)"
proof -
  let ?z = "\<lparr>ReplicaAttrs = [[], [], []]\<rparr>"
  have l: "GetZoneConfigForKey (exConfig False True) (StartKey (Desc (exRange 5))) = Inr ?z"
    by (simp add: ex_defs)
  have q3: "\<not> liveCount (storePool (allocator (exQueue [3] AllocatorRemoveDead 0 None)))
               (Replicas (Desc (exRange 5)))
             < int (length (Replicas (Desc (exRange 5)))) div 2 + 1"
    by (simp add: ex_defs liveCount_def deadReplicas_def isDead_def)
  have q0: "\<not> liveCount (storePool (allocator (exQueue [] AllocatorRemoveDead 0 None)))
               (Replicas (Desc (exRange 5)))
             < int (length (Replicas (Desc (exRange 5)))) div 2 + 1"
    by (simp add: ex_defs liveCount_def deadReplicas_def isDead_def)
  have n: "fst (ComputeAction (allocator (exQueue ds AllocatorRemoveDead 0 None)) ?z
                  (Desc (exRange 5))) = AllocatorRemoveDead" for ds
    by (simp add: ex_defs)
  from process_removeDead [OF l q3 n, of exNow] process_removeDead [OF l q0 n, of exNow]
  show ?thesis by (simp add: ex_defs deadReplicas_def isDead_def)
qed

text \<open>
  C7. The plug-in's configuration is constant: for every queue value
  \<open>needsLeaderLease\<close> is true, \<open>acceptsUnsplitRanges\<close> is false, and \<open>timer\<close> is
  the zero duration.
\<close>

theorem replicateQueue_config:
  "needsLeaderLease rq = True \<and> acceptsUnsplitRanges rq = False \<and> timer rq = 0"
  by (simp add: needsLeaderLease_def acceptsUnsplitRanges_def timer_def
      replicateQueueTimerDuration_def)

section \<open>Properties of the node event feed\<close>

text \<open>
  C9. \<open>CallComplete\<close> makes one \<open>Publish\<close> call on its feed, so a feed that is not nil
  grows by exactly one event. The event is a \<open>CallErrorEvent\<close> exactly when the
  response's error is not nil and its \<open>TransactionRestart\<close> is \<open>ABORT\<close>, and a
  \<open>CallSuccessEvent\<close> in every other case, a non-nil error with another restart value
  included. It carries the feed's node id and the request's method, which for a batch
  with at least one inner request is the method of the first of them.
\<close>

theorem CallComplete_event:
  "CallComplete nef args reply =
     Publish (f nef)
       ((if (case Error (Header reply) of
               None \<Rightarrow> False
             | Some err \<Rightarrow> TransactionRestart err = TransactionRestart_ABORT)
         then CallErrorEvent else CallSuccessEvent)
          (id nef)
          (case reqBatch args of
             None \<Rightarrow> reqMethod args
           | Some [] \<Rightarrow> reqMethod args
           | Some (r # rs) \<Rightarrow> reqMethod r))
   \<and> (\<exists>ev. CallComplete (nef\<lparr>f := Some evs\<rparr>) args reply = Some (evs @ [ev]))"
  by (simp add: CallComplete_def Publish_def Let_def split: option.split list.split)

end
